theory Spec2Isabelle
  imports Complex_Main
begin

section \<open>Numbers and errors\<close>

text \<open>
  The strategy (\<^verbatim>\<open>src/strategy/strategy2.py\<close>) computes with Python floats and with
  numpy \<^verbatim>\<open>float64\<close> scalars. Prices, balances, thresholds and probabilities that
  enter the computation are modelled as reals: no rounding, no overflow, and
  the real 0 stands for the positive zero. A value the code computes with numpy
  can leave the reals: numpy's scalar division by zero and numpy's mean of an
  empty sequence do not raise, they return an infinity or NaN (with a
  RuntimeWarning). Such values have type \<open>fval\<close>, with the IEEE rules for the
  special values. Division of Python's own numbers by zero raises
  ZeroDivisionError.
\<close>

datatype fval = Fin real | PInf | NInf | NaN

datatype py_error = IndexError | ZeroDivisionError | TypeError | AttributeError

fun f_neg :: "fval \<Rightarrow> fval" where
  "f_neg (Fin a) = Fin (- a)"
| "f_neg PInf = NInf"
| "f_neg NInf = PInf"
| "f_neg NaN = NaN"

fun f_add :: "fval \<Rightarrow> fval \<Rightarrow> fval" where
  "f_add (Fin a) (Fin b) = Fin (a + b)"
| "f_add NaN _ = NaN"
| "f_add _ NaN = NaN"
| "f_add PInf NInf = NaN"
| "f_add NInf PInf = NaN"
| "f_add PInf _ = PInf"
| "f_add _ PInf = PInf"
| "f_add NInf _ = NInf"
| "f_add _ NInf = NInf"

definition f_sub :: "fval \<Rightarrow> fval \<Rightarrow> fval" where
  "f_sub a b = f_add a (f_neg b)"

fun f_mul :: "fval \<Rightarrow> fval \<Rightarrow> fval" where
  "f_mul (Fin a) (Fin b) = Fin (a * b)"
| "f_mul NaN _ = NaN"
| "f_mul _ NaN = NaN"
| "f_mul (Fin a) PInf = (if a > 0 then PInf else if a < 0 then NInf else NaN)"
| "f_mul (Fin a) NInf = (if a > 0 then NInf else if a < 0 then PInf else NaN)"
| "f_mul PInf (Fin b) = (if b > 0 then PInf else if b < 0 then NInf else NaN)"
| "f_mul NInf (Fin b) = (if b > 0 then NInf else if b < 0 then PInf else NaN)"
| "f_mul PInf PInf = PInf"
| "f_mul NInf NInf = PInf"
| "f_mul PInf NInf = NInf"
| "f_mul NInf PInf = NInf"

text \<open>
  numpy's true division. A finite value divided by zero is an infinity with the
  sign of the dividend, and \<open>0 / 0\<close> is NaN; nothing is raised.
\<close>

fun f_div :: "fval \<Rightarrow> fval \<Rightarrow> fval" where
  "f_div (Fin a) (Fin b) =
     (if b \<noteq> 0 then Fin (a / b)
      else if a > 0 then PInf else if a < 0 then NInf else NaN)"
| "f_div NaN _ = NaN"
| "f_div _ NaN = NaN"
| "f_div (Fin a) PInf = Fin 0"
| "f_div (Fin a) NInf = Fin 0"
| "f_div PInf (Fin b) = (if b \<ge> 0 then PInf else NInf)"
| "f_div NInf (Fin b) = (if b \<ge> 0 then NInf else PInf)"
| "f_div PInf PInf = NaN"
| "f_div PInf NInf = NaN"
| "f_div NInf PInf = NaN"
| "f_div NInf NInf = NaN"

fun f_le :: "fval \<Rightarrow> fval \<Rightarrow> bool" where
  "f_le (Fin a) (Fin b) = (a \<le> b)"
| "f_le NaN _ = False"
| "f_le _ NaN = False"
| "f_le NInf _ = True"
| "f_le _ PInf = True"
| "f_le PInf _ = False"
| "f_le _ NInf = False"

fun f_lt :: "fval \<Rightarrow> fval \<Rightarrow> bool" where
  "f_lt (Fin a) (Fin b) = (a < b)"
| "f_lt NaN _ = False"
| "f_lt _ NaN = False"
| "f_lt PInf _ = False"
| "f_lt _ NInf = False"
| "f_lt NInf _ = True"
| "f_lt _ PInf = True"

definition f_ge :: "fval \<Rightarrow> fval \<Rightarrow> bool" where
  "f_ge a b = f_le b a"

definition f_gt :: "fval \<Rightarrow> fval \<Rightarrow> bool" where
  "f_gt a b = f_lt b a"

definition f_eq :: "fval \<Rightarrow> fval \<Rightarrow> bool" where
  "f_eq a b = (a \<noteq> NaN \<and> a = b)"

text \<open>\<^verbatim>\<open>np.mean\<close>: NaN for an empty sequence, the arithmetic mean otherwise.\<close>

definition np_mean :: "real list \<Rightarrow> fval" where
  "np_mean xs = (if xs = [] then NaN else Fin (sum_list xs / real (length xs)))"

subsection \<open>Python sequence indexing\<close>

text \<open>
  \<open>py_index n i\<close> is the position that index \<open>i\<close> denotes in a sequence of
  length \<open>n\<close> (a negative index counts from the end), or IndexError.
  \<open>py_from xs i\<close> is the slice \<^verbatim>\<open>xs[i:]\<close> and \<open>py_upto xs i\<close> the slice
  \<^verbatim>\<open>xs[:i]\<close>; slices clamp and never raise.
\<close>

definition py_index :: "nat \<Rightarrow> int \<Rightarrow> py_error + nat" where
  "py_index n i =
     (let j = (if i < 0 then i + int n else i)
      in if 0 \<le> j \<and> j < int n then Inr (nat j) else Inl IndexError)"

definition py_from :: "'a list \<Rightarrow> int \<Rightarrow> 'a list" where
  "py_from xs i = (if i < 0 then drop (nat (int (length xs) + i)) xs else drop (nat i) xs)"

definition py_upto :: "'a list \<Rightarrow> int \<Rightarrow> 'a list" where
  "py_upto xs i = (if i < 0 then take (nat (int (length xs) + i)) xs else take (nat i) xs)"

section \<open>Indicators\<close>

text \<open>
  \<^verbatim>\<open>calculate_sma\<close>: the mean of \<^verbatim>\<open>prices[-period:]\<close> when there are at least
  \<open>period\<close> prices, \<^verbatim>\<open>None\<close> otherwise.
\<close>

definition calculate_sma :: "real list \<Rightarrow> int \<Rightarrow> fval option" where
  "calculate_sma prices period =
     (if int (length prices) \<ge> period then Some (np_mean (py_from prices (- period)))
      else None)"

text \<open>
  \<^verbatim>\<open>calculate_ema\<close>. The list \<open>ema\<close> starts as \<^verbatim>\<open>[prices[0]]\<close> (IndexError on an
  empty list), \<^verbatim>\<open>k = 2 / (period + 1)\<close> is a division of Python integers
  (ZeroDivisionError when \<open>period = -1\<close>), and the loop appends one value per
  remaining price.
\<close>

definition ema_step :: "real \<Rightarrow> real \<Rightarrow> real list \<Rightarrow> real list" where
  "ema_step k price ema = ema @ [price * k + last ema * (1 - k)]"

definition calculate_ema :: "real list \<Rightarrow> int \<Rightarrow> py_error + real option" where
  "calculate_ema prices period =
     (if int (length prices) < period then Inr None
      else (case prices of
              [] \<Rightarrow> Inl IndexError
            | p0 # rest \<Rightarrow>
                (if period + 1 = 0 then Inl ZeroDivisionError
                 else (let k = 2 / real_of_int (period + 1)
                       in Inr (Some (last (fold (ema_step k) rest [p0])))))))"

text \<open>
  \<^verbatim>\<open>calculate_rsi\<close>. Every consecutive delta of the whole series goes to \<open>gains\<close>
  when it is positive and, negated, to \<open>losses\<close> otherwise (a zero delta is a
  loss of 0).
\<close>

definition rsi_step :: "real list \<Rightarrow> nat \<Rightarrow> real list \<times> real list \<Rightarrow> real list \<times> real list" where
  "rsi_step prices i gl =
     (let delta = prices ! i - prices ! (i - 1)
      in if delta > 0 then (fst gl @ [delta], snd gl) else (fst gl, snd gl @ [- delta]))"

definition rsi_gains_losses :: "real list \<Rightarrow> real list \<times> real list" where
  "rsi_gains_losses prices = fold (rsi_step prices) [1..<length prices] ([], [])"

definition calculate_rsi :: "real list \<Rightarrow> int \<Rightarrow> fval option" where
  "calculate_rsi prices period =
     (if int (length prices) < period then None
      else
        let gains = fst (rsi_gains_losses prices);
            losses = snd (rsi_gains_losses prices);
            average_gain = (if gains \<noteq> [] then np_mean gains else Fin 0);
            average_loss = (if losses \<noteq> [] then np_mean losses else Fin 0)
        in if f_eq average_loss (Fin 0) then Some (Fin 100)
           else let rs = f_div average_gain average_loss
                in Some (f_sub (Fin 100) (f_div (Fin 100) (f_add (Fin 1) rs))))"

text \<open>
  \<^verbatim>\<open>calculate_atr\<close>. \<open>tr\<close> and \<open>atr\<close> are arrays of zeros as long as the series.
  The true range at \<open>i \<ge> 1\<close> is the maximum of three copies of
  \<open>|prices[i] - prices[i-1]|\<close>. The assignment \<^verbatim>\<open>atr[period - 1] = np.mean(tr[:period])\<close>
  raises IndexError when the index is out of range, the smoothing loop runs over
  \<^verbatim>\<open>range(period, len(atr))\<close>, dividing numpy values by \<open>period\<close>, and the result
  is \<^verbatim>\<open>atr[-1]\<close>.
\<close>

definition tr_step :: "real list \<Rightarrow> nat \<Rightarrow> real list \<Rightarrow> real list" where
  "tr_step prices i tr =
     (let tr1 = \<bar>prices ! i - prices ! (i - 1)\<bar>;
          tr2 = \<bar>prices ! i - prices ! (i - 1)\<bar>;
          tr3 = \<bar>prices ! i - prices ! (i - 1)\<bar>
      in tr[i := max tr1 (max tr2 tr3)])"

definition true_ranges :: "real list \<Rightarrow> real list" where
  "true_ranges prices =
     fold (tr_step prices) [1..<length prices] (replicate (length prices) 0)"

fun atr_loop :: "int \<Rightarrow> real list \<Rightarrow> int list \<Rightarrow> fval list \<Rightarrow> py_error + fval list" where
  "atr_loop period tr [] atr = Inr atr"
| "atr_loop period tr (i # is) atr =
     (case py_index (length atr) (i - 1) of
        Inl e \<Rightarrow> Inl e
      | Inr a \<Rightarrow>
          (case py_index (length tr) i of
             Inl e \<Rightarrow> Inl e
           | Inr b \<Rightarrow>
               (case py_index (length atr) i of
                  Inl e \<Rightarrow> Inl e
                | Inr c \<Rightarrow>
                    atr_loop period tr is
                      (atr[c := f_div
                                  (f_add (f_mul (atr ! a) (Fin (real_of_int (period - 1))))
                                         (Fin (tr ! b)))
                                  (Fin (real_of_int period))]))))"

definition calculate_atr :: "real list \<Rightarrow> int \<Rightarrow> py_error + fval" where
  "calculate_atr prices period =
     (let tr = true_ranges prices;
          atr = replicate (length prices) (Fin 0)
      in (case py_index (length atr) (period - 1) of
            Inl e \<Rightarrow> Inl e
          | Inr j \<Rightarrow>
              (case atr_loop period tr [period..int (length atr) - 1]
                      (atr[j := np_mean (py_upto tr period)]) of
                 Inl e \<Rightarrow> Inl e
               | Inr atr' \<Rightarrow>
                   (case py_index (length atr') (- 1) of
                      Inl e \<Rightarrow> Inl e
                    | Inr l \<Rightarrow> Inr (atr' ! l)))))"

section \<open>The strategy and its stores\<close>

text \<open>
  The documents of the database, with the fields the strategy reads. A holding
  is an element of the \<^verbatim>\<open>securities\<close> list of the one document of
  \<^verbatim>\<open>db.securities\<close>; that document may be missing, and so may its
  \<^verbatim>\<open>securities\<close> key.
\<close>

record instrument =
  ticker :: string
  uid :: string
  instrument_type :: string

record order =
  order_type :: string
  order_instrument_uid :: string
  order_price :: real

record security =
  sec_instrument_uid :: string
  sec_balance :: real

text \<open>
  \<open>db_market_data n\<close> is what
  \<^verbatim>\<open>db.market_data.find().sort('_id', -1).limit(n).to_list(length=None)\<close> returns:
  the stored snapshots, each the \<^verbatim>\<open>marketData\<close> dictionary of a record as its
  (ticker, price) items in order.
\<close>

record database =
  db_market_data :: "int \<Rightarrow> (string \<times> real) list list"
  db_securities :: "security list option option"
  db_instruments :: "instrument list"
  db_orders :: "order list"

record TradingStrategy =
  self_db :: database
  self_balance :: real
  self_sl :: real
  self_tp :: real
  self_is_reverse :: bool
  self_period :: int
  self_frame :: int
  self_forecast :: "string \<rightharpoonup> real"
  self_market_data :: "(string \<times> real) list"

datatype action = BUY | SELL

text \<open>
  The four messages of \<^verbatim>\<open>_get_predicate\<close>: \<open>Msg_SL t v\<close> is
  \<^verbatim>\<open>"{sell} {ticker} SL: {stop_loss:.2f}"\<close>, \<open>Msg_TP t v\<close> is
  \<^verbatim>\<open>"{sell} {ticker} TP: {take_profit:.2f}"\<close>, \<open>Msg_Action a t\<close> is
  \<^verbatim>\<open>"{action} {ticker}"\<close> and \<open>Msg_Hold t\<close> is the HOLD line. The number carried
  is the value the format renders.
\<close>

datatype message =
  Msg_SL string fval
| Msg_TP string fval
| Msg_Action action string
| Msg_Hold string

text \<open>
  \<^verbatim>\<open>_get_trends\<close> returns the one-element list
  \<^verbatim>\<open>["Error: No historical data found"]\<close> (here \<open>Inl\<close>) when there are no
  records, and otherwise (here \<open>Inr\<close>) the dictionary built by appending, record
  by record and item by item, each price to the list of its ticker.
\<close>

type_synonym trends = "string list + (string \<rightharpoonup> real list)"

definition trends_append :: "string \<times> real \<Rightarrow> (string \<rightharpoonup> real list) \<Rightarrow> (string \<rightharpoonup> real list)" where
  "trends_append item m =
     (let m' = (if m (fst item) = None then m(fst item \<mapsto> []) else m)
      in (case m' (fst item) of
            None \<Rightarrow> m'
          | Some ps \<Rightarrow> m'(fst item \<mapsto> ps @ [snd item])))"

definition get_trends :: "TradingStrategy \<Rightarrow> trends" where
  "get_trends self =
     (let history_records = db_market_data (self_db self) (self_frame self)
      in if history_records = [] then Inl [''Error: No historical data found'']
         else Inr (fold (\<lambda>record_items m. fold trends_append record_items m)
                     history_records Map.empty))"

text \<open>
  \<^verbatim>\<open>_get_security_balance\<close>: the balance of the first holding whose
  \<^verbatim>\<open>instrument_uid\<close> is the instrument's \<^verbatim>\<open>uid\<close>, 0 when there is none.
\<close>

definition get_security_balance :: "TradingStrategy \<Rightarrow> instrument \<Rightarrow> real" where
  "get_security_balance self instr =
     (let securities =
            (case db_securities (self_db self) of
               None \<Rightarrow> []
             | Some security_obj \<Rightarrow> (case security_obj of None \<Rightarrow> [] | Some l \<Rightarrow> l))
      in (case find (\<lambda>sec. sec_instrument_uid sec = uid instr) securities of
            None \<Rightarrow> 0
          | Some sec \<Rightarrow> sec_balance sec))"

text \<open>
  \<^verbatim>\<open>_calculate_sl_tp\<close>. The divisor \<open>atr_value\<close> is either an element of the numpy
  array \<open>atr\<close> (a \<^verbatim>\<open>numpy.float64\<close>) or the integer 1 of the \<^verbatim>\<open>except\<close> branch of
  the caller. \<^verbatim>\<open>numpy.float64\<close> is a subclass of Python's float with its own
  division, so with it as right operand the division is numpy's (\<open>f_div\<close>): a
  zero ATR gives an infinite or NaN multiplier and no exception. A zero ATR is
  the positive zero, as the ATR is built from absolute values.
\<close>

definition calculate_sl_tp :: "TradingStrategy \<Rightarrow> instrument \<Rightarrow> fval \<Rightarrow> fval \<times> fval" where
  "calculate_sl_tp self instr atr_value =
     (let sl = (if instrument_type instr = ''share'' then self_sl self else self_sl self / 2);
          tp = (if instrument_type instr = ''share'' then self_tp self else self_tp self / 2);
          sl_multiplier = f_div (Fin sl) atr_value;
          tp_multiplier = f_div (Fin tp) atr_value
      in (sl_multiplier, tp_multiplier))"

text \<open>
  The \<^verbatim>\<open>try\<close> block of \<^verbatim>\<open>_get_predicate\<close>: an IndexError of \<^verbatim>\<open>calculate_atr\<close>
  is caught and replaced by the value 1; any other error propagates.
\<close>

definition atr_or_default :: "real list \<Rightarrow> py_error + fval" where
  "atr_or_default prices =
     (case calculate_atr prices 14 of
        Inl IndexError \<Rightarrow> Inr (Fin 1)
      | Inl e \<Rightarrow> Inl e
      | Inr v \<Rightarrow> Inr v)"

text \<open>
  The trend rules: the \<^verbatim>\<open>else\<close> branch of \<^verbatim>\<open>_get_predicate\<close>. Nothing is
  appended when the SMA or the EMA is \<^verbatim>\<open>None\<close>.
\<close>

definition trend_rules ::
  "TradingStrategy \<Rightarrow> message list \<Rightarrow> string \<Rightarrow> real \<Rightarrow> real \<Rightarrow>
   fval option \<Rightarrow> real option \<Rightarrow> fval option \<Rightarrow> message list" where
  "trend_rules self messages tk current_price forecast_prob sma ema rsi =
     (case sma of
        None \<Rightarrow> messages
      | Some sma_v \<Rightarrow>
          (case ema of
             None \<Rightarrow> messages
           | Some ema_v \<Rightarrow>
               if (current_price > ema_v \<and> f_gt (Fin current_price) sma_v \<and> forecast_prob \<ge> 4 / 10)
                  \<and> (case rsi of None \<Rightarrow> False | Some rsi_v \<Rightarrow> f_lt rsi_v (Fin 35))
               then messages @ [Msg_Action (if \<not> self_is_reverse self then BUY else SELL) tk]
               else if (current_price < ema_v \<and> f_lt (Fin current_price) sma_v \<and> forecast_prob \<ge> 6 / 10)
                  \<and> (case rsi of None \<Rightarrow> False | Some rsi_v \<Rightarrow> f_gt rsi_v (Fin 70))
               then messages @ [Msg_Action (if \<not> self_is_reverse self then SELL else BUY) tk]
               else messages @ [Msg_Hold tk]))"

text \<open>\<^verbatim>\<open>trends.get(ticker, [])\<close> on the dictionary of \<^verbatim>\<open>_get_trends\<close>.\<close>

definition prices_of :: "(string \<rightharpoonup> real list) \<Rightarrow> string \<Rightarrow> real list" where
  "prices_of tmap tk = (case tmap tk of None \<Rightarrow> [] | Some ps \<Rightarrow> ps)"

text \<open>
  \<^verbatim>\<open>_get_predicate\<close>, in the order of the source: the price series of the ticker
  (\<^verbatim>\<open>trends.get\<close> raises AttributeError on the list that \<^verbatim>\<open>_get_trends\<close> returns
  without history), ATR, multipliers, levels, forecast, SMA, EMA, RSI, holding,
  and then the decision.
\<close>

definition get_predicate ::
  "TradingStrategy \<Rightarrow> message list \<Rightarrow> instrument \<Rightarrow> real \<Rightarrow> fval \<Rightarrow> trends \<Rightarrow>
   py_error + message list" where
  "get_predicate self messages instr current_price price_change trnds =
     (case trnds of
        Inl _ \<Rightarrow> Inl AttributeError
      | Inr tmap \<Rightarrow>
          (let tk = ticker instr;
               prices = prices_of tmap tk
           in (case atr_or_default prices of
                 Inl e \<Rightarrow> Inl e
               | Inr atr_value \<Rightarrow>
                   (let sl_multiplier = fst (calculate_sl_tp self instr atr_value);
                        tp_multiplier = snd (calculate_sl_tp self instr atr_value);
                        stop_loss = f_sub (Fin current_price) (f_mul sl_multiplier atr_value);
                        take_profit = f_add (Fin current_price) (f_mul tp_multiplier atr_value);
                        forecast_prob = (case self_forecast self tk of None \<Rightarrow> 0 | Some p \<Rightarrow> p);
                        sma = calculate_sma prices (self_period self)
                    in (case calculate_ema prices (self_period self) of
                          Inl e \<Rightarrow> Inl e
                        | Inr ema \<Rightarrow>
                            (let rsi = calculate_rsi prices (self_period self);
                                 sec_bal = get_security_balance self instr
                             in (if f_le price_change (f_neg sl_multiplier) \<and> sec_bal > 0
                                 then Inr (messages @ [Msg_SL tk stop_loss])
                                 else if f_ge price_change tp_multiplier \<and> sec_bal > 0
                                 then Inr (messages @ [Msg_TP tk take_profit])
                                 else Inr (trend_rules self messages tk current_price
                                             forecast_prob sma ema rsi))))))))"

text \<open>
  The average buy price and the percent change of \<^verbatim>\<open>make_predicate\<close>. With buy
  orders the average is \<^verbatim>\<open>np.mean(prices)\<close>, a numpy scalar, and the arithmetic
  of the percent change is numpy's. Without them it is \<open>current_price\<close> itself, a
  Python float of the market snapshot, and Python's division raises
  ZeroDivisionError on a zero divisor.
\<close>

datatype pynum = PyFloat real | NpFloat fval

definition buy_orders_of :: "database \<Rightarrow> instrument \<Rightarrow> order list" where
  "buy_orders_of db instr =
     filter (\<lambda>ord. order_type ord = ''buy'' \<and> order_instrument_uid ord = uid instr)
       (db_orders db)"

definition buy_price_of :: "real list \<Rightarrow> real \<Rightarrow> pynum" where
  "buy_price_of prices current_price =
     (if prices \<noteq> [] then NpFloat (np_mean prices) else PyFloat current_price)"

definition price_change_of :: "real \<Rightarrow> pynum \<Rightarrow> py_error + fval" where
  "price_change_of current_price buy_price =
     (case buy_price of
        NpFloat b \<Rightarrow> Inr (f_mul (f_div (f_sub (Fin current_price) b) b) (Fin 100))
      | PyFloat b \<Rightarrow>
          (if b = 0 then Inl ZeroDivisionError
           else Inr (Fin ((current_price - b) / b * 100))))"

text \<open>
  \<^verbatim>\<open>make_predicate\<close>: the loop over the items of \<open>market_data\<close>.
  \<^verbatim>\<open>find_one\<close> returns \<^verbatim>\<open>None\<close> for a ticker without instrument, and
  \<^verbatim>\<open>instrument['uid']\<close> then raises TypeError. No exception is caught here, so an
  error ends the loop and the call.
\<close>

fun make_predicate_loop ::
  "TradingStrategy \<Rightarrow> trends \<Rightarrow> (string \<times> real) list \<Rightarrow> message list \<Rightarrow>
   py_error + message list" where
  "make_predicate_loop self trnds [] messages = Inr messages"
| "make_predicate_loop self trnds ((tk, current_price) # rest) messages =
     (case find (\<lambda>i. ticker i = tk) (db_instruments (self_db self)) of
        None \<Rightarrow> Inl TypeError
      | Some instr \<Rightarrow>
          (let buy_orders = buy_orders_of (self_db self) instr;
               prices = map order_price buy_orders;
               buy_price = buy_price_of prices current_price
           in (case price_change_of current_price buy_price of
                 Inl e \<Rightarrow> Inl e
               | Inr price_change \<Rightarrow>
                   (case get_predicate self messages instr current_price price_change trnds of
                      Inl e \<Rightarrow> Inl e
                    | Inr messages' \<Rightarrow> make_predicate_loop self trnds rest messages'))))"

definition make_predicate :: "TradingStrategy \<Rightarrow> py_error + message list" where
  "make_predicate self =
     make_predicate_loop self (get_trends self) (self_market_data self) []"

section \<open>Notions used in the statements\<close>

text \<open>
  The price series of a ticker in a list of snapshots: its prices, snapshot by
  snapshot, in the order of the list.
\<close>

definition series_of :: "string \<Rightarrow> (string \<times> real) list list \<Rightarrow> real list" where
  "series_of tk records =
     concat (map (\<lambda>r. map snd (filter (\<lambda>item. fst item = tk) r)) records)"


fun flip_action :: "action \<Rightarrow> action" where
  "flip_action BUY = SELL"
| "flip_action SELL = BUY"

subsection \<open>Example data\<close>

definition instrument_AAA :: instrument where
  "instrument_AAA = \<lparr>ticker = ''AAA'', uid = ''uid-AAA'', instrument_type = ''share''\<rparr>"

definition holding_AAA :: security where
  "holding_AAA = \<lparr>sec_instrument_uid = ''uid-AAA'', sec_balance = 10\<rparr>"

definition example_db :: database where
  "example_db =
     \<lparr>db_market_data = (\<lambda>n. [[(''AAA'', 5)], [(''AAA'', 6)], [(''AAA'', 7)]]),
      db_securities = Some (Some [holding_AAA]),
      db_instruments = [instrument_AAA],
      db_orders = []\<rparr>"

text \<open>
  A store with fourteen snapshots of one constant price, so that the ATR is 0,
  and one standing buy order of price 0.
\<close>

definition flat_db :: database where
  "flat_db =
     \<lparr>db_market_data = (\<lambda>n. replicate 14 [(''AAA'', 5)]),
      db_securities = Some (Some [holding_AAA]),
      db_instruments = [instrument_AAA],
      db_orders = [\<lparr>order_type = ''buy'', order_instrument_uid = ''uid-AAA'', order_price = 0\<rparr>]\<rparr>"

definition example_strategy :: TradingStrategy where
  "example_strategy =
     \<lparr>self_db = example_db, self_balance = 1000, self_sl = 2, self_tp = 3,
      self_is_reverse = False, self_period = 2, self_frame = 1000,
      self_forecast = [''AAA'' \<mapsto> 1 / 2],
      self_market_data = [(''AAA'', 5)]\<rparr>"

text \<open>The example strategy over the store of constant prices.\<close>

definition flat_strategy :: TradingStrategy where
  "flat_strategy = example_strategy\<lparr>self_db := flat_db\<rparr>"

text \<open>The example strategy with a second ticker that has no instrument.\<close>

definition two_ticker_strategy :: TradingStrategy where
  "two_ticker_strategy = example_strategy\<lparr>self_market_data := [(''AAA'', 5), (''BBB'', 9)]\<rparr>"

text \<open>The example strategy with a current price of 0.\<close>

definition zero_price_strategy :: TradingStrategy where
  "zero_price_strategy = example_strategy\<lparr>self_market_data := [(''AAA'', 0)]\<rparr>"

section \<open>Indicators on short series\<close>

text \<open>
  C3, as the code has it. On a series shorter than the period, \<^verbatim>\<open>calculate_sma\<close>,
  \<^verbatim>\<open>calculate_ema\<close> and \<^verbatim>\<open>calculate_rsi\<close> return \<^verbatim>\<open>None\<close> and raise nothing.
  \<^verbatim>\<open>calculate_atr\<close> does raise: the assignment to \<^verbatim>\<open>atr[period - 1]\<close> is out of
  range and the function ends in IndexError, for every such series. The caller
  \<^verbatim>\<open>_get_predicate\<close> catches that IndexError and continues with the ATR value 1.
\<close>

theorem indicators_short_series:
  "int (length prices) < period \<Longrightarrow>
     calculate_sma prices period = None \<and>
     calculate_ema prices period = Inr None \<and>
     calculate_rsi prices period = None \<and>
     calculate_atr prices period = Inl IndexError \<and>
     (period = 14 \<longrightarrow> atr_or_default prices = Inr (Fin 1))"
  by (simp add: calculate_sma_def calculate_ema_def calculate_rsi_def calculate_atr_def
      py_index_def atr_or_default_def Let_def)

theorem indicators_short_series_witness:
  "int (length [100, 101, 102 :: real]) < 14 \<and>
   calculate_sma [100, 101, 102] 14 = None \<and>
   calculate_ema [100, 101, 102] 14 = Inr None \<and>
   calculate_rsi [100, 101, 102] 14 = None \<and>
   calculate_atr [100, 101, 102] 14 = Inl IndexError \<and>
   atr_or_default [100, 101, 102] = Inr (Fin 1)"
  using indicators_short_series [of "[100, 101, 102]" 14] by simp

text \<open>
  C3 as stated fails: \<^verbatim>\<open>calculate_atr\<close> with its period 14 raises IndexError on
  the empty series and on a series of three prices.
\<close>

theorem calculate_atr_short_raises:
  "calculate_atr [] 14 = Inl IndexError \<and> calculate_atr [100, 101, 102] 14 = Inl IndexError"
  by (simp add: calculate_atr_def py_index_def Let_def)

section \<open>Moving averages of an increasing series\<close>








section \<open>The relative strength index\<close>










section \<open>The trend loader\<close>





text \<open>
  \<^verbatim>\<open>make_predicate\<close> passes the result of \<^verbatim>\<open>_get_trends\<close> on unchecked: without
  history, the first ticker of the snapshot ends the cycle in an error.
\<close>

lemma no_history_cycle:
  assumes "db_market_data (self_db self) (self_frame self) = []"
    and "self_market_data self \<noteq> []"
  shows "\<exists>e. make_predicate self = Inl e"
proof -
  obtain tk cp rest where m: "self_market_data self = (tk, cp) # rest"
    using assms(2) by (cases "self_market_data self") auto
  have t: "get_trends self = Inl [''Error: No historical data found'']"
    using assms(1) by (simp add: get_trends_def)
  show ?thesis
    unfolding make_predicate_def m t
    by (auto simp: Let_def get_predicate_def split: option.splits sum.splits)
qed



section \<open>The decision of one ticker\<close>

lemma py_index_error: "py_index n i = Inl e \<Longrightarrow> e = IndexError"
  by (auto simp: py_index_def Let_def split: if_splits)

lemma atr_loop_error: "atr_loop period tr is atr = Inl e \<Longrightarrow> e = IndexError"
proof (induction "is" arbitrary: atr)
  case Nil
  then show ?case by simp
next
  case (Cons i "is")
  then show ?case
    by (auto split: sum.splits dest: py_index_error)
qed

lemma calculate_atr_error: "calculate_atr prices period = Inl e \<Longrightarrow> e = IndexError"
  by (auto simp: calculate_atr_def Let_def split: sum.splits dest: py_index_error atr_loop_error)

lemma atr_or_default_total: "\<exists>v. atr_or_default prices = Inr v"
proof (cases "calculate_atr prices 14")
  case (Inl e)
  then have "e = IndexError" by (rule calculate_atr_error)
  then show ?thesis using Inl by (simp add: atr_or_default_def)
next
  case (Inr v)
  then show ?thesis by (simp add: atr_or_default_def)
qed

lemma calculate_ema_total: "0 < period \<Longrightarrow> \<exists>e. calculate_ema prices period = Inr e"
  by (cases prices) (auto simp: calculate_ema_def Let_def)

lemma get_predicate_unfold:
  assumes "atr_or_default (prices_of tmap (ticker instr)) = Inr atr_value"
    and "calculate_ema (prices_of tmap (ticker instr)) (self_period self) = Inr ema"
  shows "get_predicate self messages instr current_price price_change (Inr tmap) =
     (if f_le price_change (f_neg (fst (calculate_sl_tp self instr atr_value))) \<and>
         get_security_balance self instr > 0
      then Inr (messages @ [Msg_SL (ticker instr)
             (f_sub (Fin current_price) (f_mul (fst (calculate_sl_tp self instr atr_value)) atr_value))])
      else if f_ge price_change (snd (calculate_sl_tp self instr atr_value)) \<and>
         get_security_balance self instr > 0
      then Inr (messages @ [Msg_TP (ticker instr)
             (f_add (Fin current_price) (f_mul (snd (calculate_sl_tp self instr atr_value)) atr_value))])
      else Inr (trend_rules self messages (ticker instr) current_price
             (case self_forecast self (ticker instr) of None \<Rightarrow> 0 | Some p \<Rightarrow> p)
             (calculate_sma (prices_of tmap (ticker instr)) (self_period self)) ema
             (calculate_rsi (prices_of tmap (ticker instr)) (self_period self))))"
  using assms by (simp add: get_predicate_def Let_def)

text \<open>
  C1. For a ticker whose holding balance is positive (with a dictionary of
  trends and a positive lookback period), \<^verbatim>\<open>_get_predicate\<close> decides in this
  order. If \<open>price_change \<le> - sl_multiplier\<close> it appends the stop-loss SELL
  with \<open>current_price - sl_multiplier * atr_value\<close>. Otherwise, if
  \<open>price_change \<ge> tp_multiplier\<close>, it appends the take-profit SELL with
  \<open>current_price + tp_multiplier * atr_value\<close>. Only when neither holds is the
  result that of the trend rules.
\<close>

theorem exit_priority:
  assumes "0 < self_period self" and "0 < get_security_balance self instr"
  shows "\<exists>atr_value ema.
     atr_or_default (prices_of tmap (ticker instr)) = Inr atr_value \<and>
     calculate_ema (prices_of tmap (ticker instr)) (self_period self) = Inr ema \<and>
     (let sl_multiplier = fst (calculate_sl_tp self instr atr_value);
          tp_multiplier = snd (calculate_sl_tp self instr atr_value);
          result = get_predicate self messages instr current_price price_change (Inr tmap)
      in (f_le price_change (f_neg sl_multiplier) \<longrightarrow>
            result = Inr (messages @ [Msg_SL (ticker instr)
                       (f_sub (Fin current_price) (f_mul sl_multiplier atr_value))])) \<and>
         (\<not> f_le price_change (f_neg sl_multiplier) \<and> f_ge price_change tp_multiplier \<longrightarrow>
            result = Inr (messages @ [Msg_TP (ticker instr)
                       (f_add (Fin current_price) (f_mul tp_multiplier atr_value))])) \<and>
         (\<not> f_le price_change (f_neg sl_multiplier) \<and> \<not> f_ge price_change tp_multiplier \<longrightarrow>
            result = Inr (trend_rules self messages (ticker instr) current_price
                       (case self_forecast self (ticker instr) of None \<Rightarrow> 0 | Some p \<Rightarrow> p)
                       (calculate_sma (prices_of tmap (ticker instr)) (self_period self)) ema
                       (calculate_rsi (prices_of tmap (ticker instr)) (self_period self)))))"
proof -
  obtain atr_value where a: "atr_or_default (prices_of tmap (ticker instr)) = Inr atr_value"
    using atr_or_default_total by blast
  obtain ema where e: "calculate_ema (prices_of tmap (ticker instr)) (self_period self) = Inr ema"
    using calculate_ema_total [OF assms(1)] by blast
  show ?thesis
    using a e assms(2) by (simp add: get_predicate_unfold [OF a e] Let_def)
qed


lemma ex_atr: "atr_or_default [5, 6, 7] = Inr (Fin 1)"
  by (simp add: atr_or_default_def calculate_atr_def py_index_def Let_def)

lemma ex_bal: "get_security_balance example_strategy instrument_AAA = 10"
  by (simp add: get_security_balance_def example_strategy_def example_db_def holding_AAA_def instrument_AAA_def)

lemma ex_sltp: "calculate_sl_tp example_strategy instrument_AAA (Fin 1) = (Fin 2, Fin 3)"
  by (simp add: calculate_sl_tp_def example_strategy_def instrument_AAA_def)

lemma ex_ema: "calculate_ema [5, 6, 7] 2 = Inr (Some (59 / 9))"
  by (simp add: calculate_ema_def ema_step_def)

lemma ex_sma: "calculate_sma [5, 6, 7] 2 = Some (Fin (13 / 2))"
  by (simp add: calculate_sma_def py_from_def np_mean_def)

theorem exit_priority_witness:
  "0 < self_period example_strategy \<and> 0 < get_security_balance example_strategy instrument_AAA \<and>
   get_predicate example_strategy [] instrument_AAA 5 (Fin (- 50)) (Inr [''AAA'' \<mapsto> [5, 6, 7]]) =
     Inr [Msg_SL ''AAA'' (Fin 3)] \<and>
   get_predicate example_strategy [] instrument_AAA 5 (Fin 50) (Inr [''AAA'' \<mapsto> [5, 6, 7]]) =
     Inr [Msg_TP ''AAA'' (Fin 8)] \<and>
   get_predicate example_strategy [] instrument_AAA 5 (Fin 0) (Inr [''AAA'' \<mapsto> [5, 6, 7]]) =
     Inr [Msg_Hold ''AAA'']"
proof -
  have p: "0 < self_period example_strategy" by (simp add: example_strategy_def)
  have b: "0 < get_security_balance example_strategy instrument_AAA" by (simp add: ex_bal)
  have pr: "prices_of [''AAA'' \<mapsto> [5, 6, 7]] ''AAA'' = [5, 6, 7]"
    by (simp add: prices_of_def)
  have pe: "self_period example_strategy = 2" by (simp add: example_strategy_def)
  have tk: "ticker instrument_AAA = ''AAA''" by (simp add: instrument_AAA_def)
  have rsi: "calculate_rsi [5, 6, 7] 2 = Some (Fin 100)" by code_simp
  have fc: "self_forecast example_strategy ''AAA'' = Some (1 / 2)" by (simp add: example_strategy_def)
  have tr: "trend_rules example_strategy [] ''AAA'' 5 (1 / 2) (Some (Fin (13 / 2))) (Some (59 / 9)) (Some (Fin 100)) = [Msg_Hold ''AAA'']"
    by (simp add: trend_rules_def f_gt_def)
  note e = exit_priority [OF p b, where tmap = "[''AAA'' \<mapsto> [5, 6, 7]]" and price_change = "Fin (- 50)"
      and messages = "[]" and current_price = 5]
    exit_priority [OF p b, where tmap = "[''AAA'' \<mapsto> [5, 6, 7]]" and price_change = "Fin 50"
      and messages = "[]" and current_price = 5]
    exit_priority [OF p b, where tmap = "[''AAA'' \<mapsto> [5, 6, 7]]" and price_change = "Fin 0"
      and messages = "[]" and current_price = 5]
  show ?thesis using p b e
    by (simp add: tk pr pe ex_atr ex_ema ex_sma ex_sltp rsi fc Let_def f_sub_def f_ge_def tr)
qed


section \<open>A zero ATR\<close>

lemma zero_atr_multipliers:
  assumes "0 \<le> self_sl self" "0 \<le> self_tp self" "price_change \<noteq> PInf" "price_change \<noteq> NInf"
  shows "\<not> f_le price_change (f_neg (fst (calculate_sl_tp self instr (Fin 0))))"
    and "\<not> f_ge price_change (snd (calculate_sl_tp self instr (Fin 0)))"
  using assms by (cases price_change; auto simp: calculate_sl_tp_def Let_def f_ge_def)+

lemma atr_zero_default:
  "calculate_atr prices 14 = Inr (Fin 0) \<Longrightarrow> atr_or_default prices = Inr (Fin 0)"
  by (simp add: atr_or_default_def)

text \<open>
  C5, as the code has it. When the ATR of a ticker is 0, the stop-loss and
  take-profit settings are not negative, the lookback period is positive and
  the percent change is not infinite, \<^verbatim>\<open>_get_predicate\<close> raises nothing and
  takes neither exit: its result is that of the trend rules. (The multipliers
  are then infinite or NaN, and only an infinite percent change reaches them.)
\<close>

theorem zero_atr_skips_exits:
  assumes "calculate_atr (prices_of tmap (ticker instr)) 14 = Inr (Fin 0)"
    and "0 < self_period self" and "0 \<le> self_sl self" and "0 \<le> self_tp self"
    and "price_change \<noteq> PInf" and "price_change \<noteq> NInf"
  shows "\<exists>ema.
     calculate_ema (prices_of tmap (ticker instr)) (self_period self) = Inr ema \<and>
     get_predicate self messages instr current_price price_change (Inr tmap) =
       Inr (trend_rules self messages (ticker instr) current_price
              (case self_forecast self (ticker instr) of None \<Rightarrow> 0 | Some p \<Rightarrow> p)
              (calculate_sma (prices_of tmap (ticker instr)) (self_period self)) ema
              (calculate_rsi (prices_of tmap (ticker instr)) (self_period self)))"
proof -
  obtain ema where e: "calculate_ema (prices_of tmap (ticker instr)) (self_period self) = Inr ema"
    using calculate_ema_total [OF assms(2)] by blast
  have a: "atr_or_default (prices_of tmap (ticker instr)) = Inr (Fin 0)"
    using assms(1) by (rule atr_zero_default)
  show ?thesis
    using e zero_atr_multipliers [OF assms(3,4,5,6), of instr]
    by (simp add: get_predicate_unfold [OF a e])
qed

lemma flat_atr: "calculate_atr (replicate 14 5) 14 = Inr (Fin 0)"
  by code_simp

theorem zero_atr_skips_exits_witness:
  "calculate_atr (prices_of [''AAA'' \<mapsto> replicate 14 5] (ticker instrument_AAA)) 14 = Inr (Fin 0) \<and>
   0 < self_period flat_strategy \<and> 0 \<le> self_sl flat_strategy \<and> 0 \<le> self_tp flat_strategy \<and>
   Fin 0 \<noteq> PInf \<and> Fin 0 \<noteq> NInf \<and>
   get_predicate flat_strategy [] instrument_AAA 5 (Fin 0) (Inr [''AAA'' \<mapsto> replicate 14 5]) =
     Inr [Msg_Hold ''AAA'']"
proof -
  have pr: "prices_of [''AAA'' \<mapsto> replicate 14 5] (ticker instrument_AAA) = replicate 14 5"
    by (simp add: prices_of_def instrument_AAA_def)
  have a: "calculate_atr (prices_of [''AAA'' \<mapsto> replicate 14 5] (ticker instrument_AAA)) 14 = Inr (Fin 0)"
    unfolding pr by (rule flat_atr)
  have c: "0 < self_period flat_strategy" "0 \<le> self_sl flat_strategy" "0 \<le> self_tp flat_strategy"
    "Fin 0 \<noteq> PInf" "Fin 0 \<noteq> NInf"
    by (simp_all add: flat_strategy_def example_strategy_def)
  have pe: "self_period flat_strategy = 2" by (simp add: flat_strategy_def example_strategy_def)
  have tk: "ticker instrument_AAA = ''AAA''" by (simp add: instrument_AAA_def)
  have fc: "self_forecast flat_strategy ''AAA'' = Some (1 / 2)"
    by (simp add: flat_strategy_def example_strategy_def)
  have sma: "calculate_sma (replicate 14 5) 2 = Some (Fin 5)" by code_simp
  have ema: "calculate_ema (replicate 14 5) 2 = Inr (Some 5)" by code_simp
  have tr: "trend_rules flat_strategy [] ''AAA'' 5 (1 / 2) (Some (Fin 5)) (Some 5) rsi = [Msg_Hold ''AAA'']" for rsi
    by (simp add: trend_rules_def f_gt_def)
  show ?thesis
    using zero_atr_skips_exits [OF a c, where messages = "[]" and current_price = 5] a c
    unfolding pr by (simp add: tk pe fc sma ema tr)
qed

text \<open>
  C5 as stated fails. With fourteen snapshots of one price the ATR is 0; with a
  standing buy order of price 0 the percent change is infinite, it reaches the
  infinite take-profit multiplier, and the cycle emits the take-profit SELL
  (with a NaN level) instead of evaluating the trend rules.
\<close>

theorem zero_atr_take_profit_fires:
  "calculate_atr (series_of ''AAA'' (db_market_data (self_db flat_strategy) (self_frame flat_strategy))) 14
     = Inr (Fin 0) \<and>
   price_change_of 5 (buy_price_of [0] 5) = Inr PInf \<and>
   make_predicate flat_strategy = Inr [Msg_TP ''AAA'' NaN]"
  by code_simp

section \<open>Reverse mode\<close>

lemma reverse_irrelevant:
  "calculate_sl_tp (self\<lparr>self_is_reverse := b\<rparr>) instr atr_value = calculate_sl_tp self instr atr_value"
  "get_security_balance (self\<lparr>self_is_reverse := b\<rparr>) instr = get_security_balance self instr"
  by (simp_all add: calculate_sl_tp_def get_security_balance_def)

lemma trend_rules_reverse:
  "(trend_rules (self\<lparr>self_is_reverse := True\<rparr>) messages tk cp fp sma ema rsi = messages \<longleftrightarrow>
    trend_rules (self\<lparr>self_is_reverse := False\<rparr>) messages tk cp fp sma ema rsi = messages) \<and>
   (trend_rules (self\<lparr>self_is_reverse := True\<rparr>) messages tk cp fp sma ema rsi = messages @ [Msg_Hold t] \<longleftrightarrow>
    trend_rules (self\<lparr>self_is_reverse := False\<rparr>) messages tk cp fp sma ema rsi = messages @ [Msg_Hold t]) \<and>
   (trend_rules (self\<lparr>self_is_reverse := True\<rparr>) messages tk cp fp sma ema rsi = messages @ [Msg_Action (flip_action a) t] \<longleftrightarrow>
    trend_rules (self\<lparr>self_is_reverse := False\<rparr>) messages tk cp fp sma ema rsi = messages @ [Msg_Action a t]) \<and>
   trend_rules (self\<lparr>self_is_reverse := b\<rparr>) messages tk cp fp sma ema rsi \<noteq> messages @ [Msg_SL t v] \<and>
   trend_rules (self\<lparr>self_is_reverse := b\<rparr>) messages tk cp fp sma ema rsi \<noteq> messages @ [Msg_TP t v]"
  by (cases a) (auto simp: trend_rules_def split: option.splits)

lemma get_predicate_reverse_unfold:
  assumes "atr_or_default (prices_of tmap (ticker instr)) = Inr atr_value"
    and "calculate_ema (prices_of tmap (ticker instr)) (self_period self) = Inr ema"
  shows "get_predicate (self\<lparr>self_is_reverse := b\<rparr>) messages instr current_price price_change (Inr tmap) =
     (if f_le price_change (f_neg (fst (calculate_sl_tp self instr atr_value))) \<and>
         get_security_balance self instr > 0
      then Inr (messages @ [Msg_SL (ticker instr)
             (f_sub (Fin current_price) (f_mul (fst (calculate_sl_tp self instr atr_value)) atr_value))])
      else if f_ge price_change (snd (calculate_sl_tp self instr atr_value)) \<and>
         get_security_balance self instr > 0
      then Inr (messages @ [Msg_TP (ticker instr)
             (f_add (Fin current_price) (f_mul (snd (calculate_sl_tp self instr atr_value)) atr_value))])
      else Inr (trend_rules (self\<lparr>self_is_reverse := b\<rparr>) messages (ticker instr) current_price
             (case self_forecast self (ticker instr) of None \<Rightarrow> 0 | Some p \<Rightarrow> p)
             (calculate_sma (prices_of tmap (ticker instr)) (self_period self)) ema
             (calculate_rsi (prices_of tmap (ticker instr)) (self_period self))))"
  using assms get_predicate_unfold [of tmap instr atr_value "self\<lparr>self_is_reverse := b\<rparr>" ema]
  by (simp add: reverse_irrelevant)

text \<open>
  C9. Take one evaluation of a ticker twice, with \<open>is_reverse\<close> set and unset
  and everything else equal. The stop-loss SELL, the take-profit SELL, the
  HOLD, the skip (nothing appended) and every error occur in the one exactly
  when they occur in the other, with the same levels. The trend action is the
  only difference: BUY in the one is SELL in the other.
\<close>

theorem reverse_only_swaps_trend_action:
  "(get_predicate (self\<lparr>self_is_reverse := True\<rparr>) messages instr cp pc trnds = Inr (messages @ [Msg_SL t v]) \<longleftrightarrow>
    get_predicate (self\<lparr>self_is_reverse := False\<rparr>) messages instr cp pc trnds = Inr (messages @ [Msg_SL t v])) \<and>
   (get_predicate (self\<lparr>self_is_reverse := True\<rparr>) messages instr cp pc trnds = Inr (messages @ [Msg_TP t v]) \<longleftrightarrow>
    get_predicate (self\<lparr>self_is_reverse := False\<rparr>) messages instr cp pc trnds = Inr (messages @ [Msg_TP t v])) \<and>
   (get_predicate (self\<lparr>self_is_reverse := True\<rparr>) messages instr cp pc trnds = Inr (messages @ [Msg_Hold t]) \<longleftrightarrow>
    get_predicate (self\<lparr>self_is_reverse := False\<rparr>) messages instr cp pc trnds = Inr (messages @ [Msg_Hold t])) \<and>
   (get_predicate (self\<lparr>self_is_reverse := True\<rparr>) messages instr cp pc trnds = Inr messages \<longleftrightarrow>
    get_predicate (self\<lparr>self_is_reverse := False\<rparr>) messages instr cp pc trnds = Inr messages) \<and>
   (get_predicate (self\<lparr>self_is_reverse := True\<rparr>) messages instr cp pc trnds = Inl e \<longleftrightarrow>
    get_predicate (self\<lparr>self_is_reverse := False\<rparr>) messages instr cp pc trnds = Inl e) \<and>
   (get_predicate (self\<lparr>self_is_reverse := True\<rparr>) messages instr cp pc trnds = Inr (messages @ [Msg_Action (flip_action a) t]) \<longleftrightarrow>
    get_predicate (self\<lparr>self_is_reverse := False\<rparr>) messages instr cp pc trnds = Inr (messages @ [Msg_Action a t]))"
proof (cases trnds)
  case (Inl l)
  then show ?thesis by (simp add: get_predicate_def)
next
  case (Inr tmap)
  obtain atr_value where a: "atr_or_default (prices_of tmap (ticker instr)) = Inr atr_value"
    using atr_or_default_total by blast
  show ?thesis
  proof (cases "calculate_ema (prices_of tmap (ticker instr)) (self_period self)")
    case (Inl err)
    then show ?thesis using Inr a by (simp add: get_predicate_def Let_def)
  next
    case e: (Inr ema)
    show ?thesis
      unfolding Inr get_predicate_reverse_unfold [OF a e]
      using trend_rules_reverse [of self messages "ticker instr" cp _ _ ema _ t a]
      by auto
  qed
qed

theorem reverse_only_swaps_trend_action_witness:
  "get_predicate (example_strategy\<lparr>self_is_reverse := False\<rparr>) [] instrument_AAA 8 (Fin 0)
     (Inr [''AAA'' \<mapsto> [7, 6, 5]]) = Inr ([] @ [Msg_Action BUY ''AAA'']) \<and>
   get_predicate (example_strategy\<lparr>self_is_reverse := True\<rparr>) [] instrument_AAA 8 (Fin 0)
     (Inr [''AAA'' \<mapsto> [7, 6, 5]]) = Inr ([] @ [Msg_Action SELL ''AAA''])"
proof -
  have f: "get_predicate (example_strategy\<lparr>self_is_reverse := False\<rparr>) [] instrument_AAA 8 (Fin 0)
     (Inr [''AAA'' \<mapsto> [7, 6, 5]]) = Inr ([] @ [Msg_Action BUY ''AAA''])"
    by code_simp
  show ?thesis
    using f reverse_only_swaps_trend_action [of example_strategy "[]" instrument_AAA 8 "Fin 0"
        "Inr [''AAA'' \<mapsto> [7, 6, 5]]" _ _ _ BUY]
    by simp
qed

section \<open>A ticker without forecast\<close>

lemma trend_rules_no_forecast:
  "trend_rules self messages tk current_price 0 sma ema rsi \<noteq> messages @ [Msg_Action a t]"
  by (simp add: trend_rules_def split: option.splits)

lemma no_forecast_no_action:
  assumes "self_forecast self (ticker instr) = None"
  shows "get_predicate self messages instr current_price price_change trnds \<noteq>
           Inr (messages @ [Msg_Action a t])"
proof (cases trnds)
  case (Inl l)
  then show ?thesis by (simp add: get_predicate_def)
next
  case (Inr tmap)
  obtain atr_value where av: "atr_or_default (prices_of tmap (ticker instr)) = Inr atr_value"
    using atr_or_default_total by blast
  show ?thesis
  proof (cases "calculate_ema (prices_of tmap (ticker instr)) (self_period self)")
    case (Inl err)
    then show ?thesis using Inr av by (simp add: get_predicate_def Let_def)
  next
    case e: (Inr ema)
    show ?thesis
      unfolding Inr get_predicate_unfold [OF av e]
      using assms by (simp add: trend_rules_no_forecast)
  qed
qed

text \<open>
  C10. For a ticker that the forecast map does not contain, the probability is
  0 and no trend rule fires: \<^verbatim>\<open>_get_predicate\<close> never appends a BUY or SELL of
  the trend rules, and it appends HOLD whenever the SMA and the EMA are present
  and neither the stop-loss nor the take-profit exit applies.
\<close>

theorem no_forecast_holds:
  assumes "self_forecast self (ticker instr) = None"
  shows "get_predicate self messages instr current_price price_change trnds \<noteq>
           Inr (messages @ [Msg_Action a t]) \<and>
         (trnds = Inr tmap \<and>
          calculate_sma (prices_of tmap (ticker instr)) (self_period self) = Some sma \<and>
          calculate_ema (prices_of tmap (ticker instr)) (self_period self) = Inr (Some ema) \<and>
          atr_or_default (prices_of tmap (ticker instr)) = Inr atr_value \<and>
          \<not> (f_le price_change (f_neg (fst (calculate_sl_tp self instr atr_value))) \<and>
             get_security_balance self instr > 0) \<and>
          \<not> (f_ge price_change (snd (calculate_sl_tp self instr atr_value)) \<and>
             get_security_balance self instr > 0) \<longrightarrow>
          get_predicate self messages instr current_price price_change trnds =
            Inr (messages @ [Msg_Hold (ticker instr)]))"
proof (intro conjI impI)
  show "get_predicate self messages instr current_price price_change trnds \<noteq>
          Inr (messages @ [Msg_Action a t])"
    using assms by (rule no_forecast_no_action)
next
  assume h: "trnds = Inr tmap \<and>
          calculate_sma (prices_of tmap (ticker instr)) (self_period self) = Some sma \<and>
          calculate_ema (prices_of tmap (ticker instr)) (self_period self) = Inr (Some ema) \<and>
          atr_or_default (prices_of tmap (ticker instr)) = Inr atr_value \<and>
          \<not> (f_le price_change (f_neg (fst (calculate_sl_tp self instr atr_value))) \<and>
             get_security_balance self instr > 0) \<and>
          \<not> (f_ge price_change (snd (calculate_sl_tp self instr atr_value)) \<and>
             get_security_balance self instr > 0)"
  then have av: "atr_or_default (prices_of tmap (ticker instr)) = Inr atr_value"
    and e: "calculate_ema (prices_of tmap (ticker instr)) (self_period self) = Inr (Some ema)"
    by simp_all
  show "get_predicate self messages instr current_price price_change trnds =
          Inr (messages @ [Msg_Hold (ticker instr)])"
    using h assms by (simp add: get_predicate_unfold [OF av e] trend_rules_def)
qed

theorem no_forecast_holds_witness:
  "self_forecast (example_strategy\<lparr>self_forecast := Map.empty\<rparr>) (ticker instrument_AAA) = None \<and>
   calculate_sma (prices_of [''AAA'' \<mapsto> [7, 6, 5]] (ticker instrument_AAA))
     (self_period (example_strategy\<lparr>self_forecast := Map.empty\<rparr>)) = Some (Fin (11 / 2)) \<and>
   calculate_ema (prices_of [''AAA'' \<mapsto> [7, 6, 5]] (ticker instrument_AAA))
     (self_period (example_strategy\<lparr>self_forecast := Map.empty\<rparr>)) = Inr (Some (49 / 9)) \<and>
   atr_or_default (prices_of [''AAA'' \<mapsto> [7, 6, 5]] (ticker instrument_AAA)) = Inr (Fin 1) \<and>
   get_predicate (example_strategy\<lparr>self_forecast := Map.empty\<rparr>) [] instrument_AAA 8 (Fin 0)
     (Inr [''AAA'' \<mapsto> [7, 6, 5]]) = Inr [Msg_Hold ''AAA'']"
proof -
  let ?s = "example_strategy\<lparr>self_forecast := Map.empty\<rparr>"
  let ?p = "prices_of [''AAA'' \<mapsto> [7, 6, 5]] (ticker instrument_AAA)"
  have h1: "self_forecast ?s (ticker instrument_AAA) = None" by simp
  have h2: "calculate_sma ?p (self_period ?s) = Some (Fin (11 / 2))" by code_simp
  have h3: "calculate_ema ?p (self_period ?s) = Inr (Some (49 / 9))" by code_simp
  have h4: "atr_or_default ?p = Inr (Fin 1)" by code_simp
  have h5: "\<not> (f_le (Fin 0) (f_neg (fst (calculate_sl_tp ?s instrument_AAA (Fin 1)))) \<and>
              get_security_balance ?s instrument_AAA > 0)"
    by (simp add: calculate_sl_tp_def example_strategy_def instrument_AAA_def)
  have h6: "\<not> (f_ge (Fin 0) (snd (calculate_sl_tp ?s instrument_AAA (Fin 1))) \<and>
              get_security_balance ?s instrument_AAA > 0)"
    by (simp add: calculate_sl_tp_def example_strategy_def instrument_AAA_def f_ge_def)
  have tk: "ticker instrument_AAA = ''AAA''" by (simp add: instrument_AAA_def)
  show ?thesis
    using no_forecast_holds [OF h1, where messages = "[]" and current_price = 8
        and price_change = "Fin 0" and trnds = "Inr [''AAA'' \<mapsto> [7, 6, 5]]"
        and tmap = "[''AAA'' \<mapsto> [7, 6, 5]]" and sma = "Fin (11 / 2)" and ema = "49 / 9"
        and atr_value = "Fin 1"]
      h1 h2 h3 h4 h5 h6
    by (simp add: tk)
qed


section \<open>The cycle\<close>

lemma loop_missing_instrument:
  assumes "tk \<in> fst ` set items"
    and "find (\<lambda>i. ticker i = tk) (db_instruments (self_db self)) = None"
  shows "\<exists>e. make_predicate_loop self trnds items messages = Inl e"
  using assms(1)
proof (induction items arbitrary: messages)
  case Nil
  then show ?case by simp
next
  case (Cons item items)
  obtain tk' cp where item: "item = (tk', cp)" by (cases item)
  show ?case
  proof (cases "tk' = tk")
    case True
    then show ?thesis using assms(2) item by simp
  next
    case False
    then have "tk \<in> fst ` set items" using Cons.prems item by auto
    from Cons.IH [OF this] show ?thesis
      unfolding item by (auto simp: Let_def split: option.splits sum.splits)
  qed
qed

text \<open>
  C2, as the code has it. \<^verbatim>\<open>make_predicate\<close> catches no exception. When the
  market snapshot contains a ticker without instrument, the call ends in an
  error (the TypeError of \<^verbatim>\<open>instrument['uid']\<close> on \<^verbatim>\<open>None\<close>, unless an earlier
  ticker has already raised) and returns no message for any ticker.
\<close>

theorem missing_instrument_aborts_cycle:
  assumes "tk \<in> fst ` set (self_market_data self)"
    and "find (\<lambda>i. ticker i = tk) (db_instruments (self_db self)) = None"
  shows "\<exists>e. make_predicate self = Inl e"
  unfolding make_predicate_def by (rule loop_missing_instrument [OF assms])

theorem missing_instrument_aborts_cycle_witness:
  "''BBB'' \<in> fst ` set (self_market_data two_ticker_strategy) \<and>
   find (\<lambda>i. ticker i = ''BBB'') (db_instruments (self_db two_ticker_strategy)) = None \<and>
   (\<exists>e. make_predicate two_ticker_strategy = Inl e)"
proof -
  have m: "''BBB'' \<in> fst ` set (self_market_data two_ticker_strategy)"
    by (simp add: two_ticker_strategy_def example_strategy_def)
  have f: "find (\<lambda>i. ticker i = ''BBB'') (db_instruments (self_db two_ticker_strategy)) = None"
    by (simp add: two_ticker_strategy_def example_strategy_def example_db_def instrument_AAA_def)
  show ?thesis using missing_instrument_aborts_cycle [OF m f] m f by simp
qed

text \<open>
  C2 as stated fails. The snapshot with \<open>AAA\<close> alone gives a HOLD for \<open>AAA\<close>;
  with \<open>BBB\<close> added, which has no instrument, the cycle ends in TypeError and
  gives no result for \<open>AAA\<close> and no marker for \<open>BBB\<close>.
\<close>

theorem missing_instrument_loses_other_tickers:
  "make_predicate example_strategy = Inr [Msg_Hold ''AAA''] \<and>
   find (\<lambda>i. ticker i = ''BBB'') (db_instruments (self_db two_ticker_strategy)) = None \<and>
   make_predicate two_ticker_strategy = Inl TypeError"
  by code_simp

section \<open>A flat position\<close>

text \<open>
  C8, as the code has it. For an instrument without standing buy orders and a
  current price other than 0, the average buy price is the current price and
  the percent change is exactly 0.
\<close>

theorem flat_position_price_change:
  assumes "buy_orders_of db instr = []" and "current_price \<noteq> 0"
  shows "buy_price_of (map order_price (buy_orders_of db instr)) current_price =
           PyFloat current_price \<and>
         price_change_of current_price
           (buy_price_of (map order_price (buy_orders_of db instr)) current_price) = Inr (Fin 0)"
  using assms by (simp add: buy_price_of_def price_change_of_def)

theorem flat_position_price_change_witness:
  "buy_orders_of example_db instrument_AAA = [] \<and> (5::real) \<noteq> 0 \<and>
   buy_price_of (map order_price (buy_orders_of example_db instrument_AAA)) 5 = PyFloat 5 \<and>
   price_change_of 5
     (buy_price_of (map order_price (buy_orders_of example_db instrument_AAA)) 5) = Inr (Fin 0)"
proof -
  have b: "buy_orders_of example_db instrument_AAA = []"
    by (simp add: buy_orders_of_def example_db_def)
  have n: "(5::real) \<noteq> 0" by simp
  show ?thesis using flat_position_price_change [OF b n] b by auto
qed

text \<open>
  C8 as stated fails at a current price of 0: the fallback makes the divisor 0,
  the percent change is a ZeroDivisionError and the cycle ends with it.
\<close>

theorem flat_position_zero_price_raises:
  "buy_orders_of example_db instrument_AAA = [] \<and>
   price_change_of 0
     (buy_price_of (map order_price (buy_orders_of example_db instrument_AAA)) 0) =
     Inl ZeroDivisionError \<and>
   make_predicate zero_price_strategy = Inl ZeroDivisionError"
  by code_simp

end
